theory Spec2Isabelle
  imports Complex_Main "HOL-Library.Char_ord"
begin

section \<open>Strings\<close>

text \<open>
  JavaScript strings are modelled as \<^typ>\<open>string\<close>, one \<^typ>\<open>char\<close> per code unit.
  Every operation the parser uses (\<open>startsWith\<close>, \<open>slice\<close>, \<open>includes\<close>, \<open>split\<close>,
  \<open>join\<close>, the two regular expressions) works code unit by code unit. Case conversion
  is modelled on the ASCII range only: \<open>toUpperCase\<close> is applied by the sources to a
  letter of \<open>[a-z]\<close>, where this is exact; \<open>toLowerCase\<close> is applied to whole strings,
  and the model is exact for strings of ASCII characters (JavaScript also lowers
  capital letters outside ASCII, which the properties below do not cover).
\<close>

definition startsWith :: "string \<Rightarrow> string \<Rightarrow> bool" where
  "startsWith p s = (take (length p) s = p)"

text \<open>\<open>s.split(sep)\<close> for a one-character separator: never the empty array.\<close>

fun split :: "char \<Rightarrow> string \<Rightarrow> string list" where
  "split sep [] = [[]]"
| "split sep (c # cs) =
     (if c = sep then [] # split sep cs
      else (c # hd (split sep cs)) # tl (split sep cs))"

text \<open>\<open>parts.join(sep)\<close>.\<close>

fun join :: "string \<Rightarrow> string list \<Rightarrow> string" where
  "join sep [] = []"
| "join sep [p] = p"
| "join sep (p # q # ps) = p @ sep @ join sep (q # ps)"

text \<open>
  The character classes \<open>[a-z]\<close>, \<open>[A-Z]\<close> and \<open>[0-9]\<close>, as ranges of character
  codes, and the case conversion of a letter, 32 codes apart.
\<close>

definition isLower :: "char \<Rightarrow> bool" where
  "isLower c = (CHR ''a'' \<le> c \<and> c \<le> CHR ''z'')"

definition isUpper :: "char \<Rightarrow> bool" where
  "isUpper c = (CHR ''A'' \<le> c \<and> c \<le> CHR ''Z'')"

definition isDigit :: "char \<Rightarrow> bool" where
  "isDigit c = (CHR ''0'' \<le> c \<and> c \<le> CHR ''9'')"

definition toUpperCase :: "char \<Rightarrow> char" where
  "toUpperCase c = (if isLower c then char_of (of_char c - (32::nat)) else c)"

definition toLowerCase :: "char \<Rightarrow> char" where
  "toLowerCase c = (if isUpper c then char_of (of_char c + (32::nat)) else c)"

section \<open>Name transcoding (parser.ts)\<close>

text \<open>
  \<open>str.replace(/-([a-z])/g, (_, letter) => letter.toUpperCase())\<close>: the scan goes left
  to right; a hyphen followed by a lowercase letter is replaced, with that letter, by
  the upper-cased letter, and the scan resumes after the letter.
\<close>

fun kebabToCamel :: "string \<Rightarrow> string" where
  "kebabToCamel (c # d # cs) =
     (if c = CHR ''-'' \<and> isLower d then toUpperCase d # kebabToCamel cs
      else c # kebabToCamel (d # cs))"
| "kebabToCamel [c] = [c]"
| "kebabToCamel [] = []"

text \<open>\<open>str.replace(/([A-Z])/g, "-$1").toLowerCase()\<close>.\<close>

definition camelToKebab :: "string \<Rightarrow> string" where
  "camelToKebab str =
     map toLowerCase (concat (map (\<lambda>c. if isUpper c then [CHR ''-'', c] else [c]) str))"

text \<open>
  The identifiers the transcoding is meant for: one or more non-empty segments of
  lowercase letters and digits, joined by single hyphens (so no hyphen at either end
  and no two hyphens in a row).
\<close>

fun kebabIdentifier :: "string \<Rightarrow> bool" where
  "kebabIdentifier [] = False"
| "kebabIdentifier [c] = (isLower c \<or> isDigit c)"
| "kebabIdentifier (c # d # cs) =
     ((isLower c \<or> isDigit c) \<and>
      (if d = CHR ''-'' then kebabIdentifier cs else kebabIdentifier (d # cs)))"

section \<open>Argument parser (parser.ts)\<close>

text \<open>
  \<open>RawArgs = Record<string, string | boolean>\<close>: the object is a map from the names of
  its own properties to their values.
\<close>

datatype raw_value = VStr string | VBool bool

type_synonym RawArgs = "string \<rightharpoonup> raw_value"

text \<open>
  \<open>args[k] = v\<close> on the object literal \<open>args = {}\<close>, with a string or a boolean \<open>v\<close>.
  The object inherits from \<open>Object.prototype\<close>, whose only accessor property is
  \<open>__proto__\<close>: an assignment to that key calls the inherited setter, which ignores
  a value that is no object, and stores nothing. Every other key becomes, or
  overwrites, an own property.
\<close>

definition setProperty :: "RawArgs \<Rightarrow> string \<Rightarrow> raw_value \<Rightarrow> RawArgs" where
  "setProperty args k v = (if k = ''__proto__'' then args else args(k \<mapsto> v))"

text \<open>
  The \<open>for\<close> loop of \<open>parseArgs\<close> over \<open>argv\<close> from index \<open>i\<close> on: the first argument
  is \<open>argv.slice(i)\<close>, the second the object built so far. \<open>i++\<close> inside the body
  drops the consumed value from the rest. An empty next token is falsy and is not
  consumed.
\<close>

fun parseArgs_loop :: "string list \<Rightarrow> RawArgs \<Rightarrow> RawArgs" where
  "parseArgs_loop [] args = args"
| "parseArgs_loop (arg # rest) args =
     (if \<not> startsWith ''--'' arg then parseArgs_loop rest args
      else if CHR ''='' \<in> set arg then
        (let parts = split (CHR ''='') (drop 2 arg);
             key = hd parts;
             valueParts = tl parts;
             val = join ''='' valueParts
         in parseArgs_loop rest (setProperty args (kebabToCamel key) (VStr val)))
      else
        (let key = drop 2 arg in
         if startsWith ''no-'' key then
           (let positiveKey = drop 3 key
            in parseArgs_loop rest (setProperty args (kebabToCamel positiveKey) (VBool False)))
         else
           (case rest of
              [] \<Rightarrow> parseArgs_loop rest (setProperty args (kebabToCamel key) (VBool True))
            | nextArg # rest' \<Rightarrow>
                if nextArg \<noteq> [] \<and> \<not> startsWith ''--'' nextArg
                then parseArgs_loop rest' (setProperty args (kebabToCamel key) (VStr nextArg))
                else parseArgs_loop rest (setProperty args (kebabToCamel key) (VBool True)))))"

definition parseArgs :: "string list \<Rightarrow> RawArgs" where
  "parseArgs argv = parseArgs_loop argv Map.empty"

text \<open>\<open>argv.find((arg) => !arg.startsWith("--"))\<close>; \<open>None\<close> is \<open>undefined\<close>.\<close>

definition extractCommand :: "string list \<Rightarrow> string option" where
  "extractCommand argv = find (\<lambda>arg. \<not> startsWith ''--'' arg) argv"

record GlobalFlags =
  noCache :: bool
  help_flag :: bool
  verbose :: bool

definition extractGlobalFlags :: "RawArgs \<Rightarrow> GlobalFlags" where
  "extractGlobalFlags args =
     \<lparr> noCache = (args ''noCache'' = Some (VBool True) \<or> args ''noCache'' = Some (VStr ''true'')),
       help_flag = (args ''help'' = Some (VBool True) \<or> args ''help'' = Some (VStr ''true'')),
       verbose = (args ''verbose'' = Some (VBool True) \<or> args ''verbose'' = Some (VStr ''true'')) \<rparr>"

section \<open>JavaScript values\<close>

text \<open>
  A JavaScript number is \<open>NaN\<close>, an infinity or a finite value; a finite double is a
  rational. The primitive values are all that reaches the coercion helpers: a raw
  argument is a string or a boolean, an absent one is \<open>undefined\<close>.
\<close>

datatype js_number = NaN | PosInfinity | NegInfinity | Finite rat

datatype js_value = JUndefined | JNull | JBool bool | JNum js_number | JStr string

text \<open>\<open>Number.isInteger\<close>.\<close>

fun isInteger :: "js_number \<Rightarrow> bool" where
  "isInteger (Finite q) = (of_int \<lfloor>q\<rfloor> = q)"
| "isInteger _ = False"

text \<open>\<open>a < b\<close> on numbers: false as soon as one side is \<open>NaN\<close>.\<close>

fun num_less :: "js_number \<Rightarrow> js_number \<Rightarrow> bool" where
  "num_less (Finite a) (Finite b) = (a < b)"
| "num_less NaN _ = False"
| "num_less _ NaN = False"
| "num_less NegInfinity NegInfinity = False"
| "num_less NegInfinity _ = True"
| "num_less _ NegInfinity = False"
| "num_less PosInfinity _ = False"
| "num_less _ PosInfinity = True"

section \<open>The schema library, as far as the sources use it\<close>

text \<open>
  Zod is an external library. Its schema objects are modelled as a syntax tree with
  one constructor per class that the sources build or test with \<open>instanceof\<close>; every
  node carries its optional description. The shape of an object schema is the list of
  its entries, in the order of \<open>Object.entries\<close>.
\<close>

datatype number_check = CheckInt | CheckMin js_number | CheckMax js_number

datatype effect =
    Preprocess "js_value \<Rightarrow> js_value"
  | Refinement "js_value \<Rightarrow> bool"
  | Transform "js_value \<Rightarrow> js_value"

datatype zod_type =
    ZodString
  | ZodNumber "number_check list"
  | ZodBoolean
  | ZodEnum "string list"
  | ZodOptional zod_schema
  | ZodDefault zod_schema js_value
  | ZodEffects zod_schema effect
  | ZodObject "(string \<times> zod_schema) list"
  | ZodAny
and zod_schema = Schema (ztype: zod_type) (zdescription: "string option")

text \<open>
  The fields of a validation issue that \<open>formatZodError\<close> reads: the path (its elements
  as strings), and by issue code the expected and received type names, the bound, the
  allowed values, or the message.
\<close>

datatype ZodIssue =
    InvalidType "string list" string string
  | TooSmall "string list" js_number
  | TooBig "string list" js_number
  | InvalidEnumValue "string list" "string list"
  | OtherIssue "string list" string

text \<open>The library's name for the type of an input value.\<close>

fun parsedType :: "js_value \<Rightarrow> string" where
  "parsedType JUndefined = ''undefined''"
| "parsedType JNull = ''null''"
| "parsedType (JBool _) = ''boolean''"
| "parsedType (JNum NaN) = ''nan''"
| "parsedType (JNum _) = ''number''"
| "parsedType (JStr _) = ''string''"

text \<open>
  The checks of a number schema, as \<open>.int()\<close>, \<open>.min(v)\<close> and \<open>.max(v)\<close> add them
  (both bounds inclusive); every failing check reports an issue.
\<close>

fun check_issues :: "string list \<Rightarrow> js_number \<Rightarrow> number_check \<Rightarrow> ZodIssue list" where
  "check_issues path n CheckInt =
     (if isInteger n then [] else [InvalidType path ''integer'' ''float''])"
| "check_issues path n (CheckMin v) = (if num_less n v then [TooSmall path v] else [])"
| "check_issues path n (CheckMax v) = (if num_less v n then [TooBig path v] else [])"

text \<open>
  Parsing a primitive value with a schema: \<open>Inl\<close> the issues, \<open>Inr\<close> the typed value.
  A number schema accepts a number other than \<open>NaN\<close> that passes every check; a
  preprocess effect applies its function and hands the result to the inner schema; a
  refinement and a transform run after the inner schema accepted; an optional schema
  accepts \<open>undefined\<close>; a default schema replaces \<open>undefined\<close>; an object schema
  rejects every primitive.
\<close>

fun zod_parse :: "string list \<Rightarrow> zod_schema \<Rightarrow> js_value \<Rightarrow> ZodIssue list + js_value"
  and zod_parse_type :: "string list \<Rightarrow> zod_type \<Rightarrow> js_value \<Rightarrow> ZodIssue list + js_value"
where
  "zod_parse path (Schema t d) v = zod_parse_type path t v"
| "zod_parse_type path ZodString v =
     (case v of JStr s \<Rightarrow> Inr v | _ \<Rightarrow> Inl [InvalidType path ''string'' (parsedType v)])"
| "zod_parse_type path (ZodNumber checks) v =
     (case v of
        JNum n \<Rightarrow>
          (if n = NaN then Inl [InvalidType path ''number'' (parsedType v)]
           else (let issues = concat (map (check_issues path n) checks)
                 in if issues = [] then Inr v else Inl issues))
      | _ \<Rightarrow> Inl [InvalidType path ''number'' (parsedType v)])"
| "zod_parse_type path ZodBoolean v =
     (case v of JBool b \<Rightarrow> Inr v | _ \<Rightarrow> Inl [InvalidType path ''boolean'' (parsedType v)])"
| "zod_parse_type path (ZodEnum vals) v =
     (case v of
        JStr s \<Rightarrow> (if s \<in> set vals then Inr v else Inl [InvalidEnumValue path vals])
      | _ \<Rightarrow> Inl [InvalidType path
                   (join '' | '' (map (\<lambda>x. [CHR 0x27] @ x @ [CHR 0x27]) vals)) (parsedType v)])"
| "zod_parse_type path (ZodOptional inner) v =
     (if v = JUndefined then Inr JUndefined else zod_parse path inner v)"
| "zod_parse_type path (ZodDefault inner dv) v =
     zod_parse path inner (if v = JUndefined then dv else v)"
| "zod_parse_type path (ZodEffects inner (Preprocess f)) v = zod_parse path inner (f v)"
| "zod_parse_type path (ZodEffects inner (Refinement p)) v =
     (case zod_parse path inner v of
        Inl issues \<Rightarrow> Inl issues
      | Inr x \<Rightarrow> if p x then Inr x else Inl [OtherIssue path ''Invalid input''])"
| "zod_parse_type path (ZodEffects inner (Transform f)) v =
     (case zod_parse path inner v of Inl issues \<Rightarrow> Inl issues | Inr x \<Rightarrow> Inr (f x))"
| "zod_parse_type path (ZodObject shape) v = Inl [InvalidType path ''object'' (parsedType v)]"
| "zod_parse_type path ZodAny v = Inr v"

section \<open>Coercion helpers (validator.ts, \<open>cliTypes\<close>)\<close>

text \<open>
  \<open>Number(val)\<close> is the runtime's conversion to a double; the helpers take it as the
  parameter \<open>toNumber\<close>. \<open>z.preprocess(f, inner)\<close> builds an effects node without a
  description.
\<close>

definition int_preprocess :: "(js_value \<Rightarrow> js_number) \<Rightarrow> js_value \<Rightarrow> js_value" where
  "int_preprocess toNumber val =
     (if val = JStr '''' \<or> val = JUndefined \<or> val = JNull then JUndefined
      else (let num = toNumber val
            in if \<not> isInteger num then JNum NaN else JNum num))"

text \<open>\<open>let inner = ...; if (min !== undefined) inner = inner.min(min); ...\<close>\<close>

definition with_bounds ::
  "number_check list \<Rightarrow> js_number option \<Rightarrow> js_number option \<Rightarrow> zod_schema" where
  "with_bounds checks mn mx =
     Schema (ZodNumber (checks
        @ (case mn of None \<Rightarrow> [] | Some v \<Rightarrow> [CheckMin v])
        @ (case mx of None \<Rightarrow> [] | Some v \<Rightarrow> [CheckMax v]))) None"

definition cliTypes_int ::
  "(js_value \<Rightarrow> js_number) \<Rightarrow> js_number option \<Rightarrow> js_number option \<Rightarrow> zod_schema" where
  "cliTypes_int toNumber mn mx =
     Schema (ZodEffects (with_bounds [CheckInt] mn mx)
               (Preprocess (int_preprocess toNumber))) None"

definition float_preprocess :: "(js_value \<Rightarrow> js_number) \<Rightarrow> js_value \<Rightarrow> js_value" where
  "float_preprocess toNumber val =
     (if val = JStr '''' \<or> val = JUndefined \<or> val = JNull then JUndefined
      else JNum (toNumber val))"

definition cliTypes_float ::
  "(js_value \<Rightarrow> js_number) \<Rightarrow> js_number option \<Rightarrow> js_number option \<Rightarrow> zod_schema" where
  "cliTypes_float toNumber mn mx =
     Schema (ZodEffects (with_bounds [] mn mx)
               (Preprocess (float_preprocess toNumber))) None"

definition bool_preprocess :: "js_value \<Rightarrow> js_value" where
  "bool_preprocess val =
     (if val = JBool True \<or> val = JStr ''true'' then JBool True
      else if val = JBool False \<or> val = JStr ''false'' then JBool False
      else JUndefined)"

definition cliTypes_bool :: zod_schema where
  "cliTypes_bool =
     Schema (ZodEffects (Schema ZodBoolean None) (Preprocess bool_preprocess)) None"

definition limit_preprocess :: "(js_value \<Rightarrow> js_number) \<Rightarrow> js_value \<Rightarrow> js_value" where
  "limit_preprocess toNumber val =
     (if val = JStr '''' \<or> val = JUndefined then JUndefined else JNum (toNumber val))"

text \<open>\<open>limit(defaultVal, max)\<close>; the callers' defaults are 50 and 250.\<close>

definition cliTypes_limit ::
  "(js_value \<Rightarrow> js_number) \<Rightarrow> js_number \<Rightarrow> js_number \<Rightarrow> zod_schema" where
  "cliTypes_limit toNumber defaultVal mx =
     Schema (ZodEffects
       (Schema (ZodDefault
          (Schema (ZodNumber [CheckInt, CheckMin (Finite 1), CheckMax mx]) None)
          (JNum defaultVal)) None)
       (Preprocess (limit_preprocess toNumber))) None"

section \<open>Schema introspection and help text (validator.ts)\<close>

record SchemaField =
  name :: string
  type :: string
  required :: bool
  default :: "js_value option"
  description :: "string option"
  enumValues :: "string list option"

text \<open>\<open>while (innerSchema instanceof z.ZodEffects) innerSchema = innerSchema._def.schema\<close>\<close>

fun unwrapEffects :: "zod_schema \<Rightarrow> zod_schema" where
  "unwrapEffects (Schema (ZodEffects inner eff) d) = unwrapEffects inner"
| "unwrapEffects innerSchema = innerSchema"

text \<open>
  The body of the loop over \<open>Object.entries(shape)\<close>: the field starts as a required
  string; an optional wrapper, then a default wrapper, are removed from the outside
  (the two \<open>if\<close>s in this order); what remains decides the type. The \<open>instanceof\<close>
  chain has no final \<open>else\<close>: any other class leaves the field as it is.
\<close>

definition unwrapOptional :: "SchemaField \<times> zod_schema \<Rightarrow> SchemaField \<times> zod_schema" where
  "unwrapOptional fs =
     (case fs of (field, fieldInner) \<Rightarrow>
        (case ztype fieldInner of
           ZodOptional innerType \<Rightarrow> (field\<lparr>required := False\<rparr>, innerType)
         | _ \<Rightarrow> (field, fieldInner)))"

definition unwrapDefault :: "SchemaField \<times> zod_schema \<Rightarrow> SchemaField \<times> zod_schema" where
  "unwrapDefault fs =
     (case fs of (field, fieldInner) \<Rightarrow>
        (case ztype fieldInner of
           ZodDefault innerType defaultValue \<Rightarrow>
             (field\<lparr>required := False, default := Some defaultValue\<rparr>, innerType)
         | _ \<Rightarrow> (field, fieldInner)))"

definition determineType :: "SchemaField \<times> zod_schema \<Rightarrow> SchemaField" where
  "determineType fs =
     (case fs of (field, fieldInner) \<Rightarrow>
        (case ztype fieldInner of
           ZodString \<Rightarrow> field\<lparr>type := ''string''\<rparr>
         | ZodNumber checks \<Rightarrow> field\<lparr>type := ''number''\<rparr>
         | ZodBoolean \<Rightarrow> field\<lparr>type := ''boolean''\<rparr>
         | ZodEnum vals \<Rightarrow> field\<lparr>type := ''enum'', enumValues := Some vals\<rparr>
         | ZodEffects inner eff \<Rightarrow> field\<lparr>type := ''string''\<rparr>
         | _ \<Rightarrow> field))"

definition schemaField :: "string \<Rightarrow> zod_schema \<Rightarrow> SchemaField" where
  "schemaField nm fieldSchema =
     determineType (unwrapDefault (unwrapOptional
       (\<lparr> name = nm, type = ''string'', required = True, default = None,
           description = zdescription fieldSchema, enumValues = None \<rparr>,
        fieldSchema)))"

definition extractSchemaFields :: "zod_schema \<Rightarrow> SchemaField list" where
  "extractSchemaFields schema =
     (case ztype (unwrapEffects schema) of
        ZodObject shape \<Rightarrow> map (\<lambda>(nm, rawFieldSchema). schemaField nm rawFieldSchema) shape
      | _ \<Rightarrow> [])"

text \<open>
  \<open>String(v)\<close> inside a template literal is the runtime's; the renderers take it as the
  parameter \<open>toStr\<close>. A line break is the character 10.
\<close>

definition newline :: string where
  "newline = [CHR 0x0A]"

text \<open>
  An optional string in a condition (\<open>x ? f(x) : d\<close>, \<open>x || d\<close>, \<open>if (x)\<close>): truthy
  when it is present and not empty.
\<close>

fun ifTruthy :: "string option \<Rightarrow> (string \<Rightarrow> 'a) \<Rightarrow> 'a \<Rightarrow> 'a" where
  "ifTruthy None f d = d"
| "ifTruthy (Some x) f d = (if x = [] then d else f x)"

definition fieldLine :: "(js_value \<Rightarrow> string) \<Rightarrow> SchemaField \<Rightarrow> string" where
  "fieldLine toStr field =
     (let flagName = ''--'' @ camelToKebab (name field);
          typeStr = (case enumValues field of
                       Some vals \<Rightarrow> join ''|'' vals
                     | None \<Rightarrow> ''<'' @ type field @ ''>'');
          reqStr = (if required field then ''(required)''
                    else (case default field of
                            None \<Rightarrow> ''(optional)''
                          | Some JUndefined \<Rightarrow> ''(optional)''
                          | Some v \<Rightarrow> ''(default: '' @ toStr v @ '')''));
          desc = ifTruthy (description field) (\<lambda>d. '' - '' @ d) ''''
      in ''      '' @ flagName @ '' '' @ typeStr @ '' '' @ reqStr @ desc)"

text \<open>
  A thrown value is an \<open>Error\<close> with its message, or any other value with its
  \<open>String(...)\<close> rendering. A call returns or throws; an awaited promise resolves,
  rejects or never settles.
\<close>

datatype thrown = ErrorObject string | NonError string

datatype 'a call = Returns 'a | Raises thrown

datatype 'a settled = Resolves 'a | Rejects thrown | NeverSettles

text \<open>
  The execution context, as far as \<open>runCli\<close> looks at it: the two optional methods
  (\<open>None\<close> when \<open>typeof ... === "function"\<close> is false) with what a call of them does.
\<close>

record Client =
  disableCache :: "unit call option"
  disconnect :: "unit settled option"

record ('d, 'r) CommandDef =
  schema :: zod_schema
  handler :: "'d \<Rightarrow> Client \<Rightarrow> GlobalFlags \<Rightarrow> 'r settled"
  cmdDescription :: "string option"

definition generateCommandHelp ::
  "(js_value \<Rightarrow> string) \<Rightarrow> string \<Rightarrow> ('d, 'r) CommandDef \<Rightarrow> string" where
  "generateCommandHelp toStr commandName commandDef =
     (let fields = extractSchemaFields (schema commandDef)
      in join newline
           ([''  '' @ commandName]
            @ ifTruthy (cmdDescription commandDef) (\<lambda>d. [''    '' @ d]) []
            @ (if fields \<noteq> [] then ''    Options:'' # map (fieldLine toStr) fields else [])))"

record RunCliOptions =
  programName :: "string option"
  optDescription :: "string option"

text \<open>
  The command map is an object: it is the association list (with distinct keys) of
  its own properties, the registered commands, in the order of \<open>Object.entries\<close>.
\<close>

definition generateHelp ::
  "(js_value \<Rightarrow> string) \<Rightarrow> (string \<times> ('d, 'r) CommandDef) list \<Rightarrow> RunCliOptions option \<Rightarrow> string" where
  "generateHelp toStr commands options =
     (let progName = ifTruthy (case options of None \<Rightarrow> None | Some opts \<Rightarrow> programName opts)
                        (\<lambda>p. p) ''cli'';
          odesc = (case options of None \<Rightarrow> None | Some opts \<Rightarrow> optDescription opts)
      in join newline
           ([progName]
            @ ifTruthy odesc (\<lambda>d. [''  '' @ d]) []
            @ ['''',
               ''Usage:'',
               ''  npx tsx '' @ progName @ ''.ts <command> [options]'',
               '''',
               ''Global Options:'',
               ''  --help, -h      Show this help message'',
               ''  --no-cache      Disable caching for this request'',
               ''  --verbose       Enable verbose output'',
               '''',
               ''Commands:'']
            @ concat (map (\<lambda>(nm, def). [generateCommandHelp toStr nm def, '''']) commands)))"

text \<open>\<open>formatZodError\<close>: one line per issue, joined by line breaks.\<close>

fun issuePath :: "ZodIssue \<Rightarrow> string list" where
  "issuePath (InvalidType p e r) = p"
| "issuePath (TooSmall p m) = p"
| "issuePath (TooBig p m) = p"
| "issuePath (InvalidEnumValue p opts) = p"
| "issuePath (OtherIssue p msg) = p"

definition formatIssue :: "(js_value \<Rightarrow> string) \<Rightarrow> ZodIssue \<Rightarrow> string" where
  "formatIssue toStr issue =
     (let path = (if issuePath issue \<noteq> []
                  then ''--'' @ camelToKebab (join ''.'' (issuePath issue)) else ''input'')
      in case issue of
           InvalidType p expected received \<Rightarrow>
             (if received = ''undefined'' then ''Missing required argument: '' @ path
              else path @ '': Expected '' @ expected @ '', got '' @ received)
         | TooSmall p minimum \<Rightarrow>
             path @ '': Value too small (minimum: '' @ toStr (JNum minimum) @ '')''
         | TooBig p maximum \<Rightarrow>
             path @ '': Value too large (maximum: '' @ toStr (JNum maximum) @ '')''
         | InvalidEnumValue p opts \<Rightarrow>
             path @ '': Invalid value. Expected one of: '' @ join '', '' opts
         | OtherIssue p message \<Rightarrow> path @ '': '' @ message)"

definition formatZodError :: "(js_value \<Rightarrow> string) \<Rightarrow> ZodIssue list \<Rightarrow> string" where
  "formatZodError toStr issues = join newline (map (formatIssue toStr) issues)"

section \<open>The runner (validator.ts, \<open>runCli\<close>)\<close>

text \<open>
  What a run does to the outside, in order: the console output, the calls of the
  validator, of the context's constructor and methods and of the handler, and
  \<open>process.exit\<close>. \<open>console.error(JSON.stringify({ error: true, message }, null, 2))\<close>
  is recorded by its message.
\<close>

datatype event =
    ConsoleLog string
  | ConsoleError string
  | SafeParse
  | NewClient
  | DisableCacheCall
  | HandlerCall
  | DisconnectCall
  | ProcessExit nat

text \<open>The state of a run: the events so far and the variable \<open>client\<close>.\<close>

record run_state =
  trace :: "event list"
  client :: "Client option"

text \<open>
  How a piece of the program ends: normally with a value, by throwing, by
  \<open>process.exit(code)\<close>, or never (an awaited promise that does not settle).
  \<open>process.exit\<close> ends the Node.js process at once: it does not return and it does not
  unwind the stack, so no \<open>catch\<close> and no \<open>finally\<close> block runs after it.
\<close>

datatype 'a completion = Normal 'a | Throw thrown | Exit nat | Blocked

type_synonym 'a prog = "run_state \<Rightarrow> run_state \<times> 'a completion"

definition done_with :: "'a \<Rightarrow> 'a prog" where
  "done_with x = (\<lambda>s. (s, Normal x))"

text \<open>Sequencing: the second statement runs only when the first completes normally.\<close>

definition andThen :: "'a prog \<Rightarrow> ('a \<Rightarrow> 'b prog) \<Rightarrow> 'b prog" where
  "andThen m f =
     (\<lambda>s. case m s of
             (s', Normal x) \<Rightarrow> f x s'
           | (s', Throw e) \<Rightarrow> (s', Throw e)
           | (s', Exit code) \<Rightarrow> (s', Exit code)
           | (s', Blocked) \<Rightarrow> (s', Blocked))"

definition emit :: "event \<Rightarrow> unit prog" where
  "emit e = (\<lambda>s. (s\<lparr>trace := trace s @ [e]\<rparr>, Normal ()))"

definition process_exit :: "nat \<Rightarrow> 'a prog" where
  "process_exit code = (\<lambda>s. (s\<lparr>trace := trace s @ [ProcessExit code]\<rparr>, Exit code))"

definition invoke :: "'a call \<Rightarrow> 'a prog" where
  "invoke c = (\<lambda>s. case c of Returns x \<Rightarrow> (s, Normal x) | Raises e \<Rightarrow> (s, Throw e))"

definition await :: "'a settled \<Rightarrow> 'a prog" where
  "await p =
     (\<lambda>s. case p of
             Resolves x \<Rightarrow> (s, Normal x)
           | Rejects e \<Rightarrow> (s, Throw e)
           | NeverSettles \<Rightarrow> (s, Blocked))"

text \<open>
  \<open>try { body } catch (error) { handler } finally { finalizer }\<close>: the handler runs when
  the body throws; the finalizer runs after a normal or a throwing completion of the
  two, and its own abrupt completion replaces theirs. After \<open>process.exit\<close>, and while
  an \<open>await\<close> is pending, nothing runs.
\<close>

definition tryCatchFinally ::
  "unit prog \<Rightarrow> (thrown \<Rightarrow> unit prog) \<Rightarrow> unit prog \<Rightarrow> unit prog" where
  "tryCatchFinally body catch finalizer =
     (\<lambda>s. let (s1, c1) = body s;
               (s2, c2) = (case c1 of Throw e \<Rightarrow> catch e s1 | _ \<Rightarrow> (s1, c1))
           in case c2 of
                Exit code \<Rightarrow> (s2, Exit code)
              | Blocked \<Rightarrow> (s2, Blocked)
              | _ \<Rightarrow> (case finalizer s2 of
                         (s3, Normal u) \<Rightarrow> (s3, c2)
                       | (s3, c3) \<Rightarrow> (s3, c3)))"

text \<open>\<open>error instanceof Error ? error.message : String(error)\<close>\<close>

fun errorMessage :: "thrown \<Rightarrow> string" where
  "errorMessage (ErrorObject message) = message"
| "errorMessage (NonError str) = str"

text \<open>
  The collaborators of a run that are not in the sources: the validator behind
  \<open>schema.safeParse\<close>, \<open>JSON.stringify(result, null, 2)\<close> (which may throw) and
  \<open>String(...)\<close>.
\<close>

record ('d, 'r) runtime =
  safeParse :: "zod_schema \<Rightarrow> RawArgs \<Rightarrow> ZodIssue list + 'd"
  stringify :: "'r \<Rightarrow> string call"
  toStr :: "js_value \<Rightarrow> string"

text \<open>A property key: \<open>undefined\<close> used as a key reads the property \<open>"undefined"\<close>.\<close>

fun propertyKey :: "string option \<Rightarrow> string" where
  "propertyKey None = ''undefined''"
| "propertyKey (Some k) = k"

text \<open>
  \<open>commands[k]\<close> reads an own property or, failing that, one that the object inherits
  from \<open>Object.prototype\<close>: these are its names. What is inherited under them is a
  function (under \<open>__proto__\<close>, the prototype object): a truthy value without a
  property \<open>schema\<close>. Under any other name the read gives \<open>undefined\<close>.
\<close>

definition objectPrototypeKeys :: "string list" where
  "objectPrototypeKeys =
     [''constructor'', ''__defineGetter__'', ''__defineSetter__'', ''hasOwnProperty'',
      ''__lookupGetter__'', ''__lookupSetter__'', ''isPrototypeOf'',
      ''propertyIsEnumerable'', ''toString'', ''valueOf'', ''__proto__'',
      ''toLocaleString'']"

datatype 'a property = Own 'a | Inherited | Absent

definition getProperty :: "(string \<times> 'a) list \<Rightarrow> string \<Rightarrow> 'a property" where
  "getProperty obj k =
     (case map_of obj k of
        Some v \<Rightarrow> Own v
      | None \<Rightarrow> if k \<in> set objectPrototypeKeys then Inherited else Absent)"

text \<open>
  \<open>commandDef.schema.safeParse(rawArgs)\<close> on an inherited value: \<open>commandDef.schema\<close> is
  \<open>undefined\<close>, and reading \<open>safeParse\<close> from it throws this \<open>TypeError\<close>.
\<close>

definition schemaTypeError :: thrown where
  "schemaTypeError =
     ErrorObject (''Cannot read properties of undefined (reading '' @ [CHR 0x27]
       @ ''safeParse'' @ [CHR 0x27] @ '')'')"

text \<open>The body of the \<open>try\<close> block.\<close>

definition tryBody ::
  "('d, 'r) runtime \<Rightarrow> ('d, 'r) CommandDef \<Rightarrow> 'd \<Rightarrow> GlobalFlags \<Rightarrow> Client call \<Rightarrow> unit prog" where
  "tryBody rt commandDef data globals ClientClass =
     andThen (emit NewClient) (\<lambda>_.
     andThen (invoke ClientClass) (\<lambda>c.
     andThen (\<lambda>s. (s\<lparr>client := Some c\<rparr>, Normal ())) (\<lambda>_.
     andThen (if noCache globals
              then (case disableCache c of
                      None \<Rightarrow> done_with ()
                    | Some dc \<Rightarrow> andThen (emit DisableCacheCall) (\<lambda>_. invoke dc))
              else done_with ()) (\<lambda>_.
     andThen (emit HandlerCall) (\<lambda>_.
     andThen (await (handler commandDef data c globals)) (\<lambda>result.
     andThen (invoke (stringify rt result)) (\<lambda>text.
     andThen (emit (ConsoleLog text)) (\<lambda>_.
     process_exit 0))))))))"

text \<open>The \<open>catch\<close> block.\<close>

definition catchBlock :: "thrown \<Rightarrow> unit prog" where
  "catchBlock error =
     andThen (emit (ConsoleError (errorMessage error))) (\<lambda>_. process_exit 1)"

text \<open>The \<open>finally\<close> block.\<close>

definition finallyBlock :: "unit prog" where
  "finallyBlock =
     (\<lambda>s. case client s of
             None \<Rightarrow> done_with () s
           | Some c \<Rightarrow>
               (case disconnect c of
                  None \<Rightarrow> done_with () s
                | Some d \<Rightarrow> andThen (emit DisconnectCall) (\<lambda>_. await d) s))"

text \<open>
  \<open>runCli(commands, ClientClass, options)\<close> on the arguments \<open>argv = process.argv.slice(2)\<close>:
  the state when the process ends or the run stops, and how it completed. The
  statements before the \<open>try\<close> are not guarded: what they throw rejects the promise
  that \<open>runCli\<close> returns (the completion \<open>Throw\<close>).
\<close>

definition runCli ::
  "('d, 'r) runtime \<Rightarrow> (string \<times> ('d, 'r) CommandDef) list \<Rightarrow> Client call \<Rightarrow>
   RunCliOptions option \<Rightarrow> string list \<Rightarrow> run_state \<times> unit completion" where
  "runCli rt commands ClientClass options argv =
     (let commandName = extractCommand argv;
          rawArgs = parseArgs argv;
          globals = extractGlobalFlags rawArgs
      in
        andThen (if help_flag globals \<or> commandName = None \<or> commandName = Some ''''
                    \<or> commandName = Some ''help''
                 then andThen (emit (ConsoleLog (generateHelp (toStr rt) commands options)))
                        (\<lambda>_. process_exit 0)
                 else done_with ()) (\<lambda>_.
        case getProperty commands (propertyKey commandName) of
          Absent \<Rightarrow>
            andThen (emit (ConsoleError (''Unknown command: '' @ propertyKey commandName
                       @ ''. Run with --help for available commands.'')))
              (\<lambda>_. process_exit 1)
        | Inherited \<Rightarrow> (\<lambda>s. (s, Throw schemaTypeError))
        | Own commandDef \<Rightarrow>
            andThen (emit SafeParse) (\<lambda>_.
            case safeParse rt (schema commandDef) rawArgs of
              Inl error \<Rightarrow>
                andThen (emit (ConsoleError (formatZodError (toStr rt) error)))
                  (\<lambda>_. process_exit 1)
            | Inr data \<Rightarrow>
                tryCatchFinally (tryBody rt commandDef data globals ClientClass)
                  catchBlock finallyBlock))
        \<lparr> trace = [], client = None \<rparr>)"

section \<open>Example inputs\<close>

text \<open>
  Inputs for running the definitions: a validator for flat object schemas built from
  \<^const>\<open>zod_parse\<close>, a conversion of plain decimal literals, and the program of the
  package's usage example (index.ts) with a second command whose handler throws.
\<close>

text \<open>A raw argument as the value a field schema receives; a missing key reads \<open>undefined\<close>.\<close>

fun js_of_raw :: "raw_value option \<Rightarrow> js_value" where
  "js_of_raw None = JUndefined"
| "js_of_raw (Some (VStr s)) = JStr s"
| "js_of_raw (Some (VBool b)) = JBool b"

fun fieldIssues :: "ZodIssue list + js_value \<Rightarrow> ZodIssue list" where
  "fieldIssues (Inl issues) = issues"
| "fieldIssues (Inr v) = []"

fun fieldValue :: "string \<times> (ZodIssue list + js_value) \<Rightarrow> (string \<times> js_value) list" where
  "fieldValue (k, Inl issues) = []"
| "fieldValue (k, Inr v) = (if v = JUndefined then [] else [(k, v)])"

text \<open>
  An object schema parses each field of its shape under the field's name and reports
  all issues together; unknown keys and undefined results are dropped. Only object
  schemas are handled here: any other schema is answered with an issue.
\<close>

definition objectSafeParse ::
  "zod_schema \<Rightarrow> RawArgs \<Rightarrow> ZodIssue list + (string \<times> js_value) list" where
  "objectSafeParse sch raw =
     (case ztype sch of
        ZodObject shape \<Rightarrow>
          (let results = map (\<lambda>(k, s). (k, zod_parse [k] s (js_of_raw (raw k)))) shape;
               issues = concat (map (\<lambda>(k, r). fieldIssues r) results)
           in if issues = [] then Inr (concat (map fieldValue results)) else Inl issues)
      | _ \<Rightarrow> Inl [OtherIssue [] ''not an object schema''])"

text \<open>
  An example conversion in the place of \<open>Number\<close>. It agrees with \<open>Number\<close> on
  numbers, booleans, \<open>null\<close>, \<open>undefined\<close>, the empty string, and on the strings
  \<open>digits\<close> and \<open>digits.digits\<close> whose value a double holds exactly (such as \<open>50\<close> and
  \<open>3.5\<close>); it is not \<open>Number\<close> on other strings (signs, exponents, other radixes,
  white space), which it answers with \<open>NaN\<close>. It is used on the former only.
\<close>

definition digitValue :: "char \<Rightarrow> nat" where
  "digitValue c = of_char c - 48"

definition digitsValue :: "string \<Rightarrow> nat" where
  "digitsValue s = foldl (\<lambda>n c. 10 * n + digitValue c) 0 s"

definition decimalNumber :: "js_value \<Rightarrow> js_number" where
  "decimalNumber v =
     (case v of
        JNum n \<Rightarrow> n
      | JBool b \<Rightarrow> Finite (if b then 1 else 0)
      | JNull \<Rightarrow> Finite 0
      | JUndefined \<Rightarrow> NaN
      | JStr s \<Rightarrow>
          (let ip = takeWhile isDigit s; rest = dropWhile isDigit s
           in if s = [] then Finite 0
              else if ip \<noteq> [] \<and> rest = [] then Finite (of_nat (digitsValue ip))
              else if ip \<noteq> [] \<and> hd rest = CHR ''.'' \<and> tl rest \<noteq> [] \<and> list_all isDigit (tl rest)
              then Finite (of_nat (digitsValue ip)
                     + of_nat (digitsValue (tl rest)) / of_nat (10 ^ length (tl rest)))
              else NaN))"

text \<open>\<open>String(v)\<close> for strings, booleans and natural numbers.\<close>

fun showNat :: "nat \<Rightarrow> string" where
  "showNat n =
     (if n < 10 then [char_of (48 + n)] else showNat (n div 10) @ [char_of (48 + n mod 10)])"

definition exampleToStr :: "js_value \<Rightarrow> string" where
  "exampleToStr v =
     (case v of
        JStr s \<Rightarrow> s
      | JBool b \<Rightarrow> (if b then ''true'' else ''false'')
      | JNum (Finite q) \<Rightarrow> (if of_nat (nat \<lfloor>q\<rfloor>) = q then showNat (nat \<lfloor>q\<rfloor>) else ''?'')
      | JNum NaN \<Rightarrow> ''NaN''
      | JNum PosInfinity \<Rightarrow> ''Infinity''
      | JNum NegInfinity \<Rightarrow> ''-Infinity''
      | JNull \<Rightarrow> ''null''
      | JUndefined \<Rightarrow> ''undefined'')"

definition example_runtime :: "((string \<times> js_value) list, string) runtime" where
  "example_runtime =
     \<lparr> safeParse = objectSafeParse, stringify = (\<lambda>result. Returns result),
       toStr = exampleToStr \<rparr>"

definition example_client :: Client where
  "example_client = \<lparr> disableCache = Some (Returns ()), disconnect = Some (Resolves ()) \<rparr>"

definition example_commands ::
  "(string \<times> ((string \<times> js_value) list, string) CommandDef) list" where
  "example_commands =
     [(''get-order'',
       \<lparr> schema = Schema (ZodObject
            [(''orderId'', Schema ZodString (Some ''Order ID'')),
             (''limit'', cliTypes_limit decimalNumber (Finite 50) (Finite 250))]) None,
         handler = (\<lambda>args c globals. Resolves ''order''),
         cmdDescription = Some ''Retrieve an order by ID'' \<rparr>),
      (''fail'',
       \<lparr> schema = Schema (ZodObject []) None,
         handler = (\<lambda>args c globals. Rejects (ErrorObject ''boom'')),
         cmdDescription = None \<rparr>)]"

section \<open>Properties of the strings\<close>

lemma split_not_Nil: "split sep s \<noteq> []"
  by (induction s) auto

lemma split_at_first: "sep \<notin> set k \<Longrightarrow> split sep (k @ sep # v) = k # split sep v"
  by (induction k) auto

lemma join_Cons_Cons: "join sep ((c # p) # ps) = c # join sep (p # ps)"
  by (cases ps) auto

lemma join_split: "join [sep] (split sep v) = v"
proof (induction v)
  case Nil
  show ?case by simp
next
  case (Cons c cs)
  obtain p ps where "split sep cs = p # ps"
    using split_not_Nil [of sep cs] by (cases "split sep cs") auto
  with Cons show ?case
    by (auto simp: join_Cons_Cons)
qed

lemma isLower_code: "isLower c \<longleftrightarrow> 97 \<le> (of_char c :: nat) \<and> (of_char c :: nat) \<le> 122"
  by (simp add: isLower_def less_eq_char_def)

lemma isUpper_code: "isUpper c \<longleftrightarrow> 65 \<le> (of_char c :: nat) \<and> (of_char c :: nat) \<le> 90"
  by (simp add: isUpper_def less_eq_char_def)

lemma isDigit_code: "isDigit c \<longleftrightarrow> 48 \<le> (of_char c :: nat) \<and> (of_char c :: nat) \<le> 57"
  by (simp add: isDigit_def less_eq_char_def)

lemma isUpper_toUpperCase: "isLower c \<Longrightarrow> isUpper (toUpperCase c)"
  by (auto simp: toUpperCase_def isLower_code isUpper_code)

lemma toLowerCase_toUpperCase:
  assumes "isLower c"
  shows "toLowerCase (toUpperCase c) = c"
proof -
  from assms have n: "97 \<le> (of_char c :: nat)" "(of_char c :: nat) \<le> 122"
    by (simp_all add: isLower_code)
  then have "(of_char c - 32 :: nat) mod 256 + 32 = of_char c"
    by simp
  then have "char_of ((of_char c - 32 :: nat) mod 256 + 32) = c"
    by simp
  with assms isUpper_toUpperCase [OF assms] show ?thesis
    by (simp add: toLowerCase_def) (simp add: toUpperCase_def)
qed

lemma kebab_char_not_isUpper:
  "isLower c \<or> isDigit c \<or> c = CHR ''-'' \<Longrightarrow> \<not> isUpper c"
  by (auto simp: isLower_code isDigit_code isUpper_code)

lemma toLowerCase_kebab_char:
  "isLower c \<or> isDigit c \<or> c = CHR ''-'' \<Longrightarrow> toLowerCase c = c"
  using kebab_char_not_isUpper [of c] by (simp add: toLowerCase_def)

text \<open>The facts that evaluate the character functions on literals.\<close>

lemmas char_eval = isLower_code isUpper_code isDigit_code toUpperCase_def toLowerCase_def
  char_of_def bit_iff_odd

section \<open>Properties of the name transcoding\<close>

text \<open>The round trip holds for every string of lowercase letters, digits and hyphens.\<close>

lemma camelToKebab_kebabToCamel:
  "list_all (\<lambda>c. isLower c \<or> isDigit c \<or> c = CHR ''-'') s \<Longrightarrow>
   camelToKebab (kebabToCamel s) = s"
proof (induction s rule: kebabToCamel.induct)
  case (1 c d cs)
  from "1.prems" have c: "\<not> isUpper c" "toLowerCase c = c"
    by (simp_all add: kebab_char_not_isUpper toLowerCase_kebab_char)
  show ?case
  proof (cases "c = CHR ''-'' \<and> isLower d")
    case True
    with "1.prems" "1.IH"(1) have "camelToKebab (kebabToCamel cs) = cs" by simp
    with True show ?thesis
      by (simp add: camelToKebab_def isUpper_toUpperCase toLowerCase_toUpperCase
          toLowerCase_kebab_char)
  next
    case False
    with "1.prems" "1.IH"(2) have "camelToKebab (kebabToCamel (d # cs)) = d # cs" by simp
    with False c show ?thesis
      by (auto simp: camelToKebab_def)
  qed
next
  case (2 c)
  then show ?case
    by (simp add: camelToKebab_def kebab_char_not_isUpper toLowerCase_kebab_char)
next
  case 3
  show ?case by (simp add: camelToKebab_def)
qed

lemma kebabIdentifier_chars:
  "kebabIdentifier s \<Longrightarrow> list_all (\<lambda>c. isLower c \<or> isDigit c \<or> c = CHR ''-'') s"
proof (induction s rule: kebabIdentifier.induct)
  case 1
  then show ?case by simp
next
  case (2 c)
  then show ?case by auto
next
  case (3 c d cs)
  from "3.prems" have c: "isLower c \<or> isDigit c" by simp
  show ?case
  proof (cases "d = CHR ''-''")
    case True
    with "3.prems" have "kebabIdentifier cs" by simp
    with True "3.IH"(1) have "list_all (\<lambda>c. isLower c \<or> isDigit c \<or> c = CHR ''-'') cs"
      by simp
    with True c show ?thesis by auto
  next
    case False
    with "3.prems" have "kebabIdentifier (d # cs)" by simp
    with False "3.IH"(2)
    have "list_all (\<lambda>c. isLower c \<or> isDigit c \<or> c = CHR ''-'') (d # cs)"
      by simp
    with c show ?thesis by auto
  qed
qed

text \<open>
  C5. For every identifier made of non-empty segments of lowercase letters and digits
  joined by single hyphens, transcoding to the compact form and back gives the
  identifier again: \<open>camelToKebab(kebabToCamel(s)) = s\<close>.
\<close>

theorem transcoding_round_trip:
  assumes "kebabIdentifier s"
  shows "camelToKebab (kebabToCamel s) = s"
  using assms by (intro camelToKebab_kebabToCamel kebabIdentifier_chars)

theorem transcoding_round_trip_witness:
  "kebabIdentifier ''include-line-items'' \<and>
   kebabToCamel ''include-line-items'' = ''includeLineItems'' \<and>
   camelToKebab (kebabToCamel ''include-line-items'') = ''include-line-items''"
proof -
  have k: "kebabIdentifier ''include-line-items''"
    by (simp add: char_eval)
  have c: "kebabToCamel ''include-line-items'' = ''includeLineItems''"
    by (simp add: char_eval)
  from k c transcoding_round_trip [OF k] show ?thesis by simp
qed

section \<open>Properties of the argument parser\<close>

lemma setProperty_other: "k \<noteq> ''__proto__'' \<Longrightarrow> setProperty args k v = args(k \<mapsto> v)"
  by (simp add: setProperty_def)

lemma setProperty_proto: "setProperty args ''__proto__'' v = args"
  by (simp add: setProperty_def)

text \<open>The five branches of the loop body.\<close>

lemma loop_plain:
  "\<not> startsWith ''--'' arg \<Longrightarrow> parseArgs_loop (arg # rest) args = parseArgs_loop rest args"
  by simp

lemma loop_equals:
  "startsWith ''--'' arg \<Longrightarrow> CHR ''='' \<in> set arg \<Longrightarrow>
   parseArgs_loop (arg # rest) args =
   parseArgs_loop rest
     (setProperty args (kebabToCamel (hd (split (CHR ''='') (drop 2 arg))))
        (VStr (join ''='' (tl (split (CHR ''='') (drop 2 arg))))))"
  by (simp add: Let_def)

lemma loop_negation:
  "startsWith ''--'' arg \<Longrightarrow> CHR ''='' \<notin> set arg \<Longrightarrow> startsWith ''no-'' (drop 2 arg) \<Longrightarrow>
   parseArgs_loop (arg # rest) args =
   parseArgs_loop rest (setProperty args (kebabToCamel (drop 3 (drop 2 arg))) (VBool False))"
  by (simp add: Let_def)

lemma loop_value:
  "startsWith ''--'' arg \<Longrightarrow> CHR ''='' \<notin> set arg \<Longrightarrow> \<not> startsWith ''no-'' (drop 2 arg) \<Longrightarrow>
   nextArg \<noteq> [] \<Longrightarrow> \<not> startsWith ''--'' nextArg \<Longrightarrow>
   parseArgs_loop (arg # nextArg # rest) args =
   parseArgs_loop rest (setProperty args (kebabToCamel (drop 2 arg)) (VStr nextArg))"
  by (simp add: Let_def)

lemma loop_flag:
  "startsWith ''--'' arg \<Longrightarrow> CHR ''='' \<notin> set arg \<Longrightarrow> \<not> startsWith ''no-'' (drop 2 arg) \<Longrightarrow>
   rest = [] \<or> hd rest = [] \<or> startsWith ''--'' (hd rest) \<Longrightarrow>
   parseArgs_loop (arg # rest) args =
   parseArgs_loop rest (setProperty args (kebabToCamel (drop 2 arg)) (VBool True))"
  by (cases rest) (auto simp: Let_def)

text \<open>The two branches on tokens of a given form.\<close>

lemma parseArgs_loop_equals:
  assumes "CHR ''='' \<notin> set k"
  shows "parseArgs_loop ((''--'' @ k @ ''='' @ v) # rest) args =
         parseArgs_loop rest (setProperty args (kebabToCamel k) (VStr v))"
proof -
  have "split (CHR ''='') (k @ CHR ''='' # v) = k # split (CHR ''='') v"
    using assms by (rule split_at_first)
  moreover have "join ''='' (split (CHR ''='') v) = v"
    by (rule join_split)
  ultimately show ?thesis
    by (simp add: startsWith_def)
qed

lemma parseArgs_loop_negation:
  assumes "CHR ''='' \<notin> set nm"
  shows "parseArgs_loop ((''--no-'' @ nm) # rest) args =
         parseArgs_loop rest (setProperty args (kebabToCamel nm) (VBool False))"
  using assms by (simp add: startsWith_def)

text \<open>
  A token that starts with \<open>--\<close> is never consumed as a value, so the scan of what
  precedes it does not depend on what follows.
\<close>

lemma parseArgs_loop_append:
  assumes ys: "ys = [] \<or> startsWith ''--'' (hd ys)"
  shows "parseArgs_loop (xs @ ys) args = parseArgs_loop ys (parseArgs_loop xs args)"
proof (induction "length xs" arbitrary: xs args rule: less_induct)
  case less
  show ?case
  proof (cases xs)
    case Nil
    then show ?thesis by simp
  next
    case (Cons arg rest)
    have IH: "parseArgs_loop (r @ ys) a = parseArgs_loop ys (parseArgs_loop r a)"
      if "length r \<le> length rest" for r a
      using less [of r a] that Cons by simp
    consider
        (plain) "\<not> startsWith ''--'' arg"
      | (equals) "startsWith ''--'' arg" "CHR ''='' \<in> set arg"
      | (negation) "startsWith ''--'' arg" "CHR ''='' \<notin> set arg"
          "startsWith ''no-'' (drop 2 arg)"
      | (val) nextArg rest' where "startsWith ''--'' arg" "CHR ''='' \<notin> set arg"
          "\<not> startsWith ''no-'' (drop 2 arg)" "rest = nextArg # rest'" "nextArg \<noteq> []"
          "\<not> startsWith ''--'' nextArg"
      | (flag) "startsWith ''--'' arg" "CHR ''='' \<notin> set arg"
          "\<not> startsWith ''no-'' (drop 2 arg)"
          "rest = [] \<or> hd rest = [] \<or> startsWith ''--'' (hd rest)"
      by (cases rest) auto
    then show ?thesis
    proof cases
      case plain
      then show ?thesis
        unfolding Cons append_Cons by (simp add: loop_plain IH del: parseArgs_loop.simps)
    next
      case equals
      then show ?thesis
        unfolding Cons append_Cons by (simp add: loop_equals IH del: parseArgs_loop.simps)
    next
      case negation
      then show ?thesis
        unfolding Cons append_Cons by (simp add: loop_negation IH del: parseArgs_loop.simps)
    next
      case val
      have "length rest' \<le> length rest" using val(4) by simp
      with val show ?thesis
        unfolding Cons append_Cons by (simp add: loop_value IH del: parseArgs_loop.simps)
    next
      case flag
      from flag(4) ys
      have "rest @ ys = [] \<or> hd (rest @ ys) = [] \<or> startsWith ''--'' (hd (rest @ ys))"
        by (cases rest) auto
      with flag show ?thesis
        unfolding Cons append_Cons by (simp add: loop_flag IH del: parseArgs_loop.simps)
    qed
  qed
qed

lemma parseArgs_append_option:
  "startsWith ''--'' tok \<Longrightarrow>
   parseArgs (pre @ tok # post) = parseArgs_loop (tok # post) (parseArgs pre)"
  unfolding parseArgs_def by (rule parseArgs_loop_append) simp

text \<open>
  What the two branches do with a token at any position of the argument list: the
  assignment \<open>args[name] = false\<close>, respectively \<open>args[key] = value\<close> with the split at
  the first equals sign, on the object built from the tokens before it; the scan goes
  on with the token right after it. The assignment stores the value under every name
  but \<open>__proto__\<close>.
\<close>

lemma negation_token_assigns_false:
  assumes "CHR ''='' \<notin> set nm"
  shows "parseArgs (pre @ (''--no-'' @ nm) # post) =
           parseArgs_loop post (setProperty (parseArgs pre) (kebabToCamel nm) (VBool False))"
proof -
  have "startsWith ''--'' (''--no-'' @ nm)"
    by (simp add: startsWith_def)
  from parseArgs_append_option [OF this, of pre post]
    parseArgs_loop_negation [OF assms, of post "parseArgs pre"]
  show ?thesis
    by (simp del: parseArgs_loop.simps)
qed

lemma negation_token_sets_false:
  assumes "CHR ''='' \<notin> set nm" and "kebabToCamel nm \<noteq> ''__proto__''"
    and "\<not> startsWith ''--'' v"
  shows "parseArgs (pre @ (''--no-'' @ nm) # post) =
           parseArgs_loop post ((parseArgs pre)(kebabToCamel nm \<mapsto> VBool False)) \<and>
         parseArgs (pre @ [''--no-'' @ nm, v]) =
           (parseArgs pre)(kebabToCamel nm \<mapsto> VBool False)"
  using negation_token_assigns_false [OF assms(1), of pre post]
    negation_token_assigns_false [OF assms(1), of pre "[v]"] assms(2,3)
  by (simp add: setProperty_other loop_plain del: parseArgs_loop.simps(2))

lemma equals_token_assigns_value:
  assumes "CHR ''='' \<notin> set key"
  shows "parseArgs (pre @ (''--'' @ key @ ''='' @ val) # post) =
           parseArgs_loop post (setProperty (parseArgs pre) (kebabToCamel key) (VStr val))"
proof -
  have "startsWith ''--'' (''--'' @ key @ ''='' @ val)"
    by (simp add: startsWith_def)
  from parseArgs_append_option [OF this, of pre post]
    parseArgs_loop_equals [OF assms, of val post "parseArgs pre"]
  show ?thesis
    by (simp del: parseArgs_loop.simps)
qed

lemma equals_token_sets_value:
  assumes "CHR ''='' \<notin> set key" and "kebabToCamel key \<noteq> ''__proto__''"
  shows "parseArgs (pre @ (''--'' @ key @ ''='' @ val) # post) =
           parseArgs_loop post ((parseArgs pre)(kebabToCamel key \<mapsto> VStr val))"
  using equals_token_assigns_value [OF assms(1), of pre val post] assms(2)
  by (simp add: setProperty_other del: parseArgs_loop.simps)

text \<open>The facts that evaluate the parser on a list of literals.\<close>

lemmas parse_eval = parseArgs_def startsWith_def setProperty_def

text \<open>
  C3. Tokenizing \<open>["--no-cache", "--status=open"]\<close> is claimed to yield
  \<open>{ noCache: true, status: "open" }\<close>. The code takes \<open>--no-cache\<close> as the negation
  of \<open>cache\<close>: the result is \<open>{ cache: false, status: "open" }\<close>, it has no key
  \<open>noCache\<close>, and the global flag \<open>noCache\<close> read from it is false.
\<close>

theorem parseArgs_no_cache_status:
  "parseArgs [''--no-cache'', ''--status=open''] =
     [''cache'' \<mapsto> VBool False, ''status'' \<mapsto> VStr ''open''] \<and>
   parseArgs [''--no-cache'', ''--status=open''] \<noteq>
     [''noCache'' \<mapsto> VBool True, ''status'' \<mapsto> VStr ''open''] \<and>
   parseArgs [''--no-cache'', ''--status=open''] ''noCache'' = None \<and>
   noCache (extractGlobalFlags (parseArgs [''--no-cache'', ''--status=open''])) = False"
proof -
  have p: "parseArgs [''--no-cache'', ''--status=open''] =
           [''cache'' \<mapsto> VBool False, ''status'' \<mapsto> VStr ''open'']"
    by (simp add: parse_eval)
  have n: "[''cache'' \<mapsto> VBool False, ''status'' \<mapsto> VStr ''open''] ''noCache'' = None"
    by simp
  have "[''cache'' \<mapsto> VBool False, ''status'' \<mapsto> VStr ''open''] \<noteq>
        [''noCache'' \<mapsto> VBool True, ''status'' \<mapsto> VStr ''open'']"
  proof
    assume "[''cache'' \<mapsto> VBool False, ''status'' \<mapsto> VStr ''open''] =
            [''noCache'' \<mapsto> VBool True, ''status'' \<mapsto> VStr ''open'']"
    then have "[''cache'' \<mapsto> VBool False, ''status'' \<mapsto> VStr ''open''] ''noCache'' =
               [''noCache'' \<mapsto> VBool True, ''status'' \<mapsto> VStr ''open''] ''noCache''"
      by (rule arg_cong)
    then show False by simp
  qed
  with p n show ?thesis
    by (simp add: extractGlobalFlags_def)
qed

text \<open>
  C4. Every token \<open>--no-<name>\<close> without an equals sign is claimed to set the
  transcoded \<open><name>\<close> to the boolean \<open>false\<close>. The code does so, ahead of any
  consumption of a value, for \<open>--no-dry-run\<close>; for \<open>--no-__proto__\<close> it stores nothing:
  the result has no key \<open>__proto__\<close>, and is the empty object when this is the only
  token.
\<close>

theorem negation_of_proto_stores_nothing:
  "parseArgs [''--no-__proto__''] = Map.empty \<and>
   parseArgs [''--no-__proto__''] ''__proto__'' \<noteq> Some (VBool False) \<and>
   parseArgs [''--verbose'', ''--no-__proto__'', ''5''] = [''verbose'' \<mapsto> VBool True] \<and>
   parseArgs [''--verbose'', ''--no-dry-run'', ''5''] =
     [''verbose'' \<mapsto> VBool True, ''dryRun'' \<mapsto> VBool False]"
  by (simp add: parse_eval char_eval)

text \<open>
  C6. Every token \<open>--<key>=<value>\<close> is claimed to store the string after its first
  equals sign under the transcoded key. The code does so for \<open>--key=a=b\<close>, for
  \<open>--order-id=a=b=c\<close> and for \<open>--key=\<close> (the empty string, not the boolean \<open>true\<close> of
  \<open>--key\<close>); for \<open>--__proto__=x\<close> it stores nothing.
\<close>

theorem equals_token_of_proto_stores_nothing:
  "parseArgs [''--__proto__=x'', ''--a''] = [''a'' \<mapsto> VBool True] \<and>
   parseArgs [''--__proto__=x'', ''--a''] ''__proto__'' \<noteq> Some (VStr ''x'') \<and>
   parseArgs [''--__proto__=x''] = Map.empty \<and>
   parseArgs [''--key=a=b''] = [''key'' \<mapsto> VStr ''a=b''] \<and>
   parseArgs [''--order-id=a=b=c'', ''--a''] =
     [''orderId'' \<mapsto> VStr ''a=b=c'', ''a'' \<mapsto> VBool True] \<and>
   parseArgs [''--key=''] = [''key'' \<mapsto> VStr ''''] \<and>
   parseArgs [''--key''] = [''key'' \<mapsto> VBool True]"
  by (simp add: parse_eval char_eval)

text \<open>
  C10. \<open>extractCommand\<close> returns the first token that does not start with \<open>--\<close>,
  also when \<open>parseArgs\<close> consumes that very token as the value of the option before
  it (the parser assigns it under the option's name): for \<open>["--verbose", "list"]\<close> the
  parser gives \<open>{ verbose: "list" }\<close> and the command is \<open>"list"\<close>. A token with a
  single dash, such as \<open>-h\<close>, is a command name and no option.
\<close>

theorem extractCommand_first_non_option:
  assumes "list_all (startsWith ''--'') pre" and "\<not> startsWith ''--'' t"
  shows "extractCommand (pre @ t # post) = Some t \<and>
         (startsWith ''--'' opt \<and> CHR ''='' \<notin> set opt \<and> \<not> startsWith ''no-'' (drop 2 opt) \<and>
          t \<noteq> [] \<longrightarrow>
            parseArgs [opt, t] = setProperty Map.empty (kebabToCamel (drop 2 opt)) (VStr t) \<and>
            extractCommand [opt, t] = Some t) \<and>
         parseArgs [''--verbose'', ''list''] = [''verbose'' \<mapsto> VStr ''list''] \<and>
         extractCommand [''--verbose'', ''list''] = Some ''list'' \<and>
         extractCommand [''-h''] = Some ''-h'' \<and>
         parseArgs [''-h''] = Map.empty"
proof -
  have "find (\<lambda>arg. \<not> startsWith ''--'' arg) (pre @ t # post) = Some t"
    using assms by (induction pre) auto
  then have first: "extractCommand (pre @ t # post) = Some t"
    by (simp add: extractCommand_def)
  have consumed: "parseArgs [opt, t] = setProperty Map.empty (kebabToCamel (drop 2 opt)) (VStr t) \<and>
                  extractCommand [opt, t] = Some t"
    if "startsWith ''--'' opt" "CHR ''='' \<notin> set opt" "\<not> startsWith ''no-'' (drop 2 opt)"
      "t \<noteq> []"
    using that assms(2) by (simp add: parseArgs_def extractCommand_def)
  have "parseArgs [''--verbose'', ''list''] = [''verbose'' \<mapsto> VStr ''list'']"
    by (simp add: parse_eval)
  moreover have "extractCommand [''--verbose'', ''list''] = Some ''list''"
    by (simp add: extractCommand_def startsWith_def)
  moreover have "extractCommand [''-h''] = Some ''-h''"
    by (simp add: extractCommand_def startsWith_def)
  moreover have "parseArgs [''-h''] = Map.empty"
    by (simp add: parse_eval)
  ultimately show ?thesis
    using first consumed by blast
qed

theorem extractCommand_first_non_option_witness:
  "list_all (startsWith ''--'') [''--verbose'', ''--limit=5''] \<and> \<not> startsWith ''--'' ''-h'' \<and>
   extractCommand [''--verbose'', ''--limit=5'', ''-h'', ''list''] = Some ''-h'' \<and>
   parseArgs [''--dry-run'', ''-h''] = [''dryRun'' \<mapsto> VStr ''-h''] \<and>
   extractCommand [''--dry-run'', ''-h''] = Some ''-h''"
proof -
  have a: "list_all (startsWith ''--'') [''--verbose'', ''--limit=5'']"
    by (simp add: startsWith_def)
  have b: "\<not> startsWith ''--'' ''-h''"
    by (simp add: startsWith_def)
  from a b
    extractCommand_first_non_option [OF a b, of "[''list'']" "''--dry-run''"]
  show ?thesis
    by (simp add: startsWith_def setProperty_def char_eval)
qed

section \<open>Properties of the runner\<close>

lemmas prog_defs = andThen_def emit_def process_exit_def done_with_def invoke_def await_def

text \<open>The \<open>catch\<close> block always ends the process with code 1.\<close>

lemma catchBlock_exits:
  "catchBlock e s =
     (s\<lparr>trace := trace s @ [ConsoleError (errorMessage e), ProcessExit 1]\<rparr>, Exit 1)"
  by (simp add: catchBlock_def prog_defs)

text \<open>
  The \<open>try\<close> block never completes normally: it throws, it blocks on the handler's
  promise, or it ends the process with code 0.
\<close>

lemma tryBody_completion:
  "snd (tryBody rt commandDef data globals ClientClass s) = Exit 0 \<or>
   snd (tryBody rt commandDef data globals ClientClass s) = Blocked \<or>
   (\<exists>e. snd (tryBody rt commandDef data globals ClientClass s) = Throw e)"
  by (simp add: tryBody_def prog_defs split: call.splits settled.splits option.splits)

lemma tryBody_no_disconnect:
  "DisconnectCall \<notin> set (trace s) \<Longrightarrow>
   DisconnectCall \<notin> set (trace (fst (tryBody rt commandDef data globals ClientClass s)))"
  by (simp add: tryBody_def prog_defs split: call.splits settled.splits option.splits)

text \<open>
  Hence the \<open>finally\<close> block is never reached: the whole statement is the \<open>try\<close>
  block, followed by the \<open>catch\<close> block when it throws.
\<close>

lemma tryCatchFinally_runCli:
  "tryCatchFinally (tryBody rt commandDef data globals ClientClass) catchBlock finallyBlock s =
     (case tryBody rt commandDef data globals ClientClass s of
        (s1, Throw e) \<Rightarrow> catchBlock e s1
      | (s1, c1) \<Rightarrow> (s1, c1))"
  using tryBody_completion [of rt commandDef data globals ClientClass s]
  by (auto simp: tryCatchFinally_def catchBlock_exits split: prod.splits completion.splits)

lemma tryCatchFinally_no_disconnect:
  assumes "DisconnectCall \<notin> set (trace s)"
  shows "DisconnectCall \<notin> set (trace (fst
           (tryCatchFinally (tryBody rt commandDef data globals ClientClass)
              catchBlock finallyBlock s)))"
  using tryBody_no_disconnect [OF assms, of rt commandDef data globals ClientClass]
  by (auto simp: tryCatchFinally_runCli catchBlock_exits split: prod.splits completion.splits)

text \<open>No run of \<open>runCli\<close> calls \<open>disconnect\<close>.\<close>

lemma runCli_never_disconnects:
  "DisconnectCall \<notin> set (trace (fst (runCli rt commands ClientClass options argv)))"
proof -
  have "DisconnectCall \<notin> set (trace (fst
          (tryCatchFinally (tryBody rt commandDef data globals ClientClass)
             catchBlock finallyBlock \<lparr>trace = [SafeParse], client = None\<rparr>)))"
    for commandDef data globals
    by (rule tryCatchFinally_no_disconnect) simp
  then show ?thesis
    by (simp add: runCli_def Let_def prog_defs split: property.splits sum.splits)
qed

text \<open>
  C1. A run in which the context was constructed is claimed to call its \<open>disconnect\<close>
  exactly once before the process ends, also when the handler throws. In the run of
  the example program with the command \<open>fail\<close>, whose handler throws, the context is
  constructed and has a \<open>disconnect\<close> method, the process ends with code 1, and
  \<open>disconnect\<close> is not called: \<open>process.exit(1)\<close> in the \<open>catch\<close> block ends the
  process before the \<open>finally\<close> block.
\<close>

theorem throwing_handler_skips_disconnect:
  "runCli example_runtime example_commands (Returns example_client) None [''fail''] =
     (\<lparr> trace = [SafeParse, NewClient, HandlerCall, ConsoleError ''boom'', ProcessExit 1],
        client = Some example_client \<rparr>, Exit 1) \<and>
   disconnect example_client = Some (Resolves ()) \<and>
   count_list (trace (fst (runCli example_runtime example_commands (Returns example_client)
     None [''fail'']))) DisconnectCall = 0"
proof -
  have "runCli example_runtime example_commands (Returns example_client) None [''fail''] =
     (\<lparr> trace = [SafeParse, NewClient, HandlerCall, ConsoleError ''boom'', ProcessExit 1],
        client = Some example_client \<rparr>, Exit 1)"
    by (simp add: runCli_def Let_def prog_defs extractCommand_def parse_eval
        extractGlobalFlags_def getProperty_def example_commands_def example_runtime_def
        objectSafeParse_def tryCatchFinally_def tryBody_def catchBlock_def)
  then show ?thesis
    by (simp add: example_client_def)
qed

text \<open>
  C7. When the global help flag is set, or there is no command token, or the command
  token is \<open>help\<close>, the run prints the full help text and ends the process with code
  0, and does nothing else: no validation, no construction of the context, no handler.
\<close>

theorem help_short_circuit:
  assumes "help_flag (extractGlobalFlags (parseArgs argv)) \<or> extractCommand argv = None \<or>
           extractCommand argv = Some ''help''"
  shows "runCli rt commands ClientClass options argv =
           (\<lparr> trace = [ConsoleLog (generateHelp (toStr rt) commands options), ProcessExit 0],
              client = None \<rparr>, Exit 0)"
  using assms by (auto simp: runCli_def Let_def prog_defs)

text \<open>The help text of the example program.\<close>

lemma example_help_text:
  "generateHelp exampleToStr example_commands None =
     join newline
       [''cli'',
        '''',
        ''Usage:'',
        ''  npx tsx cli.ts <command> [options]'',
        '''',
        ''Global Options:'',
        ''  --help, -h      Show this help message'',
        ''  --no-cache      Disable caching for this request'',
        ''  --verbose       Enable verbose output'',
        '''',
        ''Commands:'',
        ''  get-order'',
        ''    Retrieve an order by ID'',
        ''    Options:'',
        ''      --order-id <string> (required) - Order ID'',
        ''      --limit <string> (required)'',
        '''',
        ''  fail'',
        '''']"
  by (simp add: generateHelp_def generateCommandHelp_def extractSchemaFields_def
      schemaField_def unwrapOptional_def unwrapDefault_def determineType_def fieldLine_def
      camelToKebab_def char_eval example_commands_def cliTypes_limit_def newline_def)

theorem help_short_circuit_witness:
  "help_flag (extractGlobalFlags (parseArgs [''get-order'', ''--help''])) \<and>
   runCli example_runtime example_commands (Returns example_client) None
     [''get-order'', ''--help''] =
     (\<lparr> trace = [ConsoleLog (generateHelp exampleToStr example_commands None), ProcessExit 0],
        client = None \<rparr>, Exit 0) \<and>
   extractCommand [''--verbose''] = None \<and>
   runCli example_runtime example_commands (Returns example_client) None [''--verbose''] =
     (\<lparr> trace = [ConsoleLog (generateHelp exampleToStr example_commands None), ProcessExit 0],
        client = None \<rparr>, Exit 0) \<and>
   extractCommand [''help''] = Some ''help'' \<and>
   runCli example_runtime example_commands (Returns example_client) None [''help''] =
     (\<lparr> trace = [ConsoleLog (generateHelp exampleToStr example_commands None), ProcessExit 0],
        client = None \<rparr>, Exit 0) \<and>
   generateHelp exampleToStr example_commands None =
     join newline
       [''cli'',
        '''',
        ''Usage:'',
        ''  npx tsx cli.ts <command> [options]'',
        '''',
        ''Global Options:'',
        ''  --help, -h      Show this help message'',
        ''  --no-cache      Disable caching for this request'',
        ''  --verbose       Enable verbose output'',
        '''',
        ''Commands:'',
        ''  get-order'',
        ''    Retrieve an order by ID'',
        ''    Options:'',
        ''      --order-id <string> (required) - Order ID'',
        ''      --limit <string> (required)'',
        '''',
        ''  fail'',
        '''']"
proof -
  have h: "help_flag (extractGlobalFlags (parseArgs [''get-order'', ''--help'']))"
    by (simp add: extractGlobalFlags_def parse_eval)
  have n: "extractCommand [''--verbose''] = None"
    by (simp add: extractCommand_def startsWith_def)
  have c: "extractCommand [''help''] = Some ''help''"
    by (simp add: extractCommand_def startsWith_def)
  note run = help_short_circuit [of _ example_runtime example_commands
      "Returns example_client" None]
  from h have "runCli example_runtime example_commands (Returns example_client) None
      [''get-order'', ''--help''] =
     (\<lparr> trace = [ConsoleLog (generateHelp exampleToStr example_commands None), ProcessExit 0],
        client = None \<rparr>, Exit 0)"
    using run [of "[''get-order'', ''--help'']"] by (simp add: example_runtime_def)
  moreover from n have "runCli example_runtime example_commands (Returns example_client) None
      [''--verbose''] =
     (\<lparr> trace = [ConsoleLog (generateHelp exampleToStr example_commands None), ProcessExit 0],
        client = None \<rparr>, Exit 0)"
    using run [of "[''--verbose'']"] by (simp add: example_runtime_def)
  moreover from c have "runCli example_runtime example_commands (Returns example_client) None
      [''help''] =
     (\<lparr> trace = [ConsoleLog (generateHelp exampleToStr example_commands None), ProcessExit 0],
        client = None \<rparr>, Exit 0)"
    using run [of "[''help'']"] by (simp add: example_runtime_def)
  ultimately show ?thesis
    using h n c example_help_text by simp
qed

text \<open>
  A command token that names a property inherited from \<open>Object.prototype\<close> is not
  reported as unknown: the lookup finds the inherited value, and the read of
  \<open>schema.safeParse\<close> from it throws before the \<open>try\<close> statement. The run prints
  nothing, constructs nothing and rejects.
\<close>

lemma inherited_command_name_throws:
  "runCli example_runtime example_commands (Returns example_client) None [''toString''] =
     (\<lparr> trace = [], client = None \<rparr>, Throw schemaTypeError)"
  by (simp add: runCli_def Let_def prog_defs extractCommand_def parse_eval
      extractGlobalFlags_def getProperty_def objectPrototypeKeys_def example_commands_def)

text \<open>
  C2, as amended. In a run in which the command token is not a registered name, or
  the validation of the raw arguments fails, the constructor of the context is never
  called; and when moreover the help short-circuit does not apply (the help flag is
  not set, and there is a command token that is neither empty nor \<open>help\<close>) and the
  command token does not name a property inherited from \<open>Object.prototype\<close>, the
  process ends with code 1.
\<close>

theorem rejected_run_never_constructs:
  assumes "map_of commands (propertyKey (extractCommand argv)) = None \<or>
           (\<exists>commandDef issues.
              map_of commands (propertyKey (extractCommand argv)) = Some commandDef \<and>
              safeParse rt (schema commandDef) (parseArgs argv) = Inl issues)"
  shows "NewClient \<notin> set (trace (fst (runCli rt commands ClientClass options argv))) \<and>
         (\<not> help_flag (extractGlobalFlags (parseArgs argv)) \<and>
          extractCommand argv \<noteq> None \<and> extractCommand argv \<noteq> Some '''' \<and>
          extractCommand argv \<noteq> Some ''help'' \<and>
          propertyKey (extractCommand argv) \<notin> set objectPrototypeKeys \<longrightarrow>
            snd (runCli rt commands ClientClass options argv) = Exit 1)"
  using assms by (auto simp: runCli_def Let_def prog_defs getProperty_def)

theorem rejected_run_never_constructs_witness:
  "map_of example_commands (propertyKey (extractCommand [''bogus''])) = None \<and>
   propertyKey (extractCommand [''bogus'']) \<notin> set objectPrototypeKeys \<and>
   NewClient \<notin> set (trace (fst (runCli example_runtime example_commands
     (Returns example_client) None [''bogus'']))) \<and>
   snd (runCli example_runtime example_commands (Returns example_client) None [''bogus'']) =
     Exit 1 \<and>
   objectSafeParse (schema (snd (hd example_commands))) (parseArgs [''get-order'']) =
     Inl [InvalidType [''orderId''] ''string'' ''undefined''] \<and>
   NewClient \<notin> set (trace (fst (runCli example_runtime example_commands
     (Returns example_client) None [''get-order'']))) \<and>
   snd (runCli example_runtime example_commands (Returns example_client) None
     [''get-order'']) = Exit 1 \<and>
   map_of example_commands (propertyKey (extractCommand [''toString''])) = None \<and>
   NewClient \<notin> set (trace (fst (runCli example_runtime example_commands
     (Returns example_client) None [''toString''])))"
proof -
  have flags: "\<not> help_flag (extractGlobalFlags (parseArgs [t]))" if "\<not> startsWith ''--'' t" for t
    using that by (simp add: parseArgs_def extractGlobalFlags_def)
  have cmd: "extractCommand [t] = Some t" if "\<not> startsWith ''--'' t" for t
    using that by (simp add: extractCommand_def)
  have b: "\<not> startsWith ''--'' ''bogus''" "\<not> startsWith ''--'' ''get-order''"
    "\<not> startsWith ''--'' ''toString''"
    by (simp_all add: startsWith_def)
  have a: "map_of example_commands (propertyKey (extractCommand [''bogus''])) = None"
    by (simp add: example_commands_def cmd [OF b(1)])
  have k: "propertyKey (extractCommand [''bogus'']) \<notin> set objectPrototypeKeys"
    "propertyKey (extractCommand [''get-order'']) \<notin> set objectPrototypeKeys"
    by (simp_all add: objectPrototypeKeys_def cmd [OF b(1)] cmd [OF b(2)])
  have v: "objectSafeParse (schema (snd (hd example_commands))) (parseArgs [''get-order'']) =
           Inl [InvalidType [''orderId''] ''string'' ''undefined'']"
    by (simp add: example_commands_def objectSafeParse_def parse_eval
        cliTypes_limit_def limit_preprocess_def)
  have g: "map_of example_commands (propertyKey (extractCommand [''get-order''])) =
           Some (snd (hd example_commands))"
    by (simp add: example_commands_def cmd [OF b(2)])
  have t: "map_of example_commands (propertyKey (extractCommand [''toString''])) = None"
    by (simp add: example_commands_def cmd [OF b(3)])
  note run = rejected_run_never_constructs [of example_commands _ example_runtime
      "Returns example_client" None]
  have "NewClient \<notin> set (trace (fst (runCli example_runtime example_commands
          (Returns example_client) None [''bogus'']))) \<and>
        snd (runCli example_runtime example_commands (Returns example_client) None
          [''bogus'']) = Exit 1"
    using run [of "[''bogus'']"] a k(1) flags [OF b(1)] cmd [OF b(1)]
    by simp
  moreover have "NewClient \<notin> set (trace (fst (runCli example_runtime example_commands
          (Returns example_client) None [''get-order'']))) \<and>
        snd (runCli example_runtime example_commands (Returns example_client) None
          [''get-order'']) = Exit 1"
    using run [of "[''get-order'']"] g v k(2) flags [OF b(2)] cmd [OF b(2)]
    by (simp add: example_runtime_def)
  moreover have "NewClient \<notin> set (trace (fst (runCli example_runtime example_commands
          (Returns example_client) None [''toString''])))"
    using run [of "[''toString'']"] t
    by simp
  ultimately show ?thesis
    using a k(1) v t by simp
qed

text \<open>
  C2, as claimed, fails when the help short-circuit applies: with the unregistered
  command token \<open>bogus\<close> and the flag \<open>--help\<close>, the process ends with code 0.
\<close>

theorem unregistered_command_with_help_exits_0:
  "extractCommand [''bogus'', ''--help''] = Some ''bogus'' \<and>
   map_of example_commands ''bogus'' = None \<and>
   snd (runCli example_runtime example_commands (Returns example_client) None
     [''bogus'', ''--help'']) = Exit 0 \<and>
   snd (runCli example_runtime example_commands (Returns example_client) None
     [''bogus'', ''--help'']) \<noteq> Exit 1"
  by (simp add: runCli_def Let_def prog_defs extractCommand_def parse_eval
      extractGlobalFlags_def example_commands_def)

section \<open>Properties of the coercion helpers\<close>

text \<open>
  C8. The preprocessing of \<open>cliTypes.int()\<close> maps the empty string, \<open>undefined\<close> and
  \<open>null\<close> to \<open>undefined\<close>, which the number schema reports as a missing value (it is
  not accepted as 0 or \<open>NaN\<close>); and it maps any other input whose numeric conversion
  is not an integer to \<open>NaN\<close>, which the number schema rejects.
\<close>

theorem int_coercion:
  "int_preprocess toNumber (JStr '''') = JUndefined \<and>
   int_preprocess toNumber JUndefined = JUndefined \<and>
   int_preprocess toNumber JNull = JUndefined \<and>
   (v = JStr '''' \<or> v = JUndefined \<or> v = JNull \<longrightarrow>
      zod_parse path (cliTypes_int toNumber mn mx) v =
        Inl [InvalidType path ''number'' ''undefined'']) \<and>
   (v \<noteq> JStr '''' \<and> v \<noteq> JUndefined \<and> v \<noteq> JNull \<and> \<not> isInteger (toNumber v) \<longrightarrow>
      int_preprocess toNumber v = JNum NaN \<and>
      zod_parse path (cliTypes_int toNumber mn mx) v = Inl [InvalidType path ''number'' ''nan''])"
  by (auto simp: int_preprocess_def cliTypes_int_def with_bounds_def)

theorem int_coercion_witness:
  "decimalNumber (JStr ''3.5'') = Finite (7 / 2) \<and>
   \<not> isInteger (decimalNumber (JStr ''3.5'')) \<and>
   int_preprocess decimalNumber (JStr ''3.5'') = JNum NaN \<and>
   zod_parse [''limit''] (cliTypes_int decimalNumber None None) (JStr ''3.5'') =
     Inl [InvalidType [''limit''] ''number'' ''nan''] \<and>
   zod_parse [''limit''] (cliTypes_int decimalNumber None None) (JStr '''') =
     Inl [InvalidType [''limit''] ''number'' ''undefined'']"
proof -
  have d: "decimalNumber (JStr ''3.5'') = Finite (7 / 2)"
    by (simp add: decimalNumber_def digitsValue_def digitValue_def isDigit_code)
  have "\<lfloor>7 / 2 :: rat\<rfloor> = 3"
    by (rule floor_unique) simp_all
  with d have n: "\<not> isInteger (decimalNumber (JStr ''3.5''))"
    by simp
  from d n
    int_coercion [of decimalNumber "JStr ''3.5''" "[''limit'']" None None]
    int_coercion [of decimalNumber "JStr ''''" "[''limit'']" None None]
  show ?thesis
    by simp
qed

section \<open>Properties of the schema introspection\<close>

text \<open>
  C9. A field whose schema is an effects node, as \<open>cliTypes.int\<close>, \<open>float\<close>, \<open>bool\<close>
  and \<open>limit\<close> build it, is reported with type \<open>string\<close>, as required and without a
  default, whatever the wrapped schema is: a \<open>cliTypes.limit(50, 250)\<close> field is
  rendered as a required string option, although the schema it wraps is a number
  with the default 50.
\<close>

theorem effects_field_required_string:
  "schemaField nm (Schema (ZodEffects inner eff) d) =
     \<lparr> name = nm, type = ''string'', required = True, default = None, description = d,
       enumValues = None \<rparr> \<and>
   extractSchemaFields
     (Schema (ZodObject (pre @ (nm, Schema (ZodEffects inner eff) d) # post)) od) ! length pre =
     \<lparr> name = nm, type = ''string'', required = True, default = None, description = d,
       enumValues = None \<rparr> \<and>
   schemaField nm (cliTypes_int toNumber mn mx) =
     \<lparr> name = nm, type = ''string'', required = True, default = None, description = None,
       enumValues = None \<rparr> \<and>
   schemaField nm (cliTypes_float toNumber mn mx) =
     \<lparr> name = nm, type = ''string'', required = True, default = None, description = None,
       enumValues = None \<rparr> \<and>
   schemaField nm cliTypes_bool =
     \<lparr> name = nm, type = ''string'', required = True, default = None, description = None,
       enumValues = None \<rparr> \<and>
   schemaField nm (cliTypes_limit toNumber (Finite 50) (Finite 250)) =
     \<lparr> name = nm, type = ''string'', required = True, default = None, description = None,
       enumValues = None \<rparr> \<and>
   fieldLine str (schemaField ''limit'' (cliTypes_limit toNumber (Finite 50) (Finite 250))) =
     ''      --limit <string> (required)'' \<and>
   schemaField nm (Schema (ZodDefault
       (Schema (ZodNumber [CheckInt, CheckMin (Finite 1), CheckMax (Finite 250)]) None)
       (JNum (Finite 50))) None) =
     \<lparr> name = nm, type = ''number'', required = False, default = Some (JNum (Finite 50)),
       description = None, enumValues = None \<rparr>"
proof -
  have f: "schemaField nm (Schema (ZodEffects inner eff) d) =
     \<lparr> name = nm, type = ''string'', required = True, default = None, description = d,
       enumValues = None \<rparr>" for nm inner eff d
    by (simp add: schemaField_def unwrapOptional_def unwrapDefault_def determineType_def)
  have "extractSchemaFields
     (Schema (ZodObject (pre @ (nm, Schema (ZodEffects inner eff) d) # post)) od) ! length pre =
     schemaField nm (Schema (ZodEffects inner eff) d)"
    by (simp add: extractSchemaFields_def nth_append)
  moreover have "fieldLine str
      \<lparr> name = ''limit'', type = ''string'', required = True, default = None,
        description = None, enumValues = None \<rparr> = ''      --limit <string> (required)''"
    by (simp add: fieldLine_def camelToKebab_def isUpper_code toLowerCase_def)
  moreover have "schemaField nm (Schema (ZodDefault
       (Schema (ZodNumber [CheckInt, CheckMin (Finite 1), CheckMax (Finite 250)]) None)
       (JNum (Finite 50))) None) =
     \<lparr> name = nm, type = ''number'', required = False, default = Some (JNum (Finite 50)),
       description = None, enumValues = None \<rparr>"
    by (simp add: schemaField_def unwrapOptional_def unwrapDefault_def determineType_def)
  ultimately show ?thesis
    by (simp add: f cliTypes_int_def cliTypes_float_def cliTypes_bool_def cliTypes_limit_def)
qed

end
